theory Spec2Isabelle
  imports Main
begin

section \<open>Values shared by the tracing package\<close>

text \<open>
  A Go \<^verbatim>\<open>error\<close> is an \<open>error option\<close>: \<open>None\<close> is \<^verbatim>\<open>nil\<close>. A function
  that returns \<^verbatim>\<open>(value, error)\<close> and gives no value with an error is a sum,
  \<open>Inl\<close> the error.
\<close>

datatype error = Error string

text \<open>
  \<^verbatim>\<open>schema.GroupVersionKind\<close> with the two methods the tracing client calls on it:
  \<^verbatim>\<open>Empty\<close> (all three fields have length zero) and \<^verbatim>\<open>String\<close>
  (\<^verbatim>\<open>Group + "/" + Version + ", Kind=" + Kind\<close>).
\<close>

record GroupVersionKind =
  Group :: string
  Version :: string
  Kind :: string

definition gvk_Empty :: "GroupVersionKind \<Rightarrow> bool" where
  "gvk_Empty gvk =
     (length (Group gvk) = 0 \<and> length (Version gvk) = 0 \<and> length (Kind gvk) = 0)"

definition gvk_String :: "GroupVersionKind \<Rightarrow> string" where
  "gvk_String gvk = Group gvk @ ''/'' @ Version gvk @ '', Kind='' @ Kind gvk"

text \<open>
  \<^verbatim>\<open>client.ObjectKey\<close> is \<^verbatim>\<open>types.NamespacedName\<close>; its \<^verbatim>\<open>String\<close> joins
  namespace and name with a slash.
\<close>

record ObjectKey =
  Namespace :: string
  Name :: string

definition key_String :: "ObjectKey \<Rightarrow> string" where
  "key_String key = Namespace key @ ''/'' @ Name key"

text \<open>
  A \<^verbatim>\<open>runtime.Object\<close> argument, never \<^verbatim>\<open>nil\<close>, seen through the three
  things the tracing client asks of it: the kind it declares
  (\<^verbatim>\<open>obj.GetObjectKind().GroupVersionKind()\<close>), what \<^verbatim>\<open>meta.Accessor(obj)\<close>
  gives (namespace and name, or \<open>None\<close> when the accessor returns an error), and
  its dynamic type, which is \<^verbatim>\<open>*unstructured.Unstructured\<close>,
  \<^verbatim>\<open>*unstructured.UnstructuredList\<close> or any other type. The rest of the object
  is its \<open>Body\<close>.
\<close>

datatype dynamic_type = UnstructuredPtr | UnstructuredListPtr | OtherType

record Object =
  ObjectKind :: GroupVersionKind
  Accessor :: "(string \<times> string) option"
  DynamicType :: dynamic_type
  Body :: string

text \<open>
  \<^verbatim>\<open>runtime.Scheme\<close>, the type registry, is used through \<^verbatim>\<open>ObjectKinds\<close> only:
  the candidate kinds, the unversioned flag and an error. A \<^verbatim>\<open>nil\<close> scheme
  pointer is \<open>None\<close>.
\<close>

type_synonym Scheme = "Object \<Rightarrow> GroupVersionKind list \<times> bool \<times> error option"

section \<open>The tracing capability\<close>

text \<open>
  A span records what was done to it: the tags in the order of the \<^verbatim>\<open>SetTag\<close>
  calls (the start options first), a repeated key kept each time as the Jaeger
  client that \<^verbatim>\<open>go.mod\<close> requires keeps it, and the log records in the order
  of the \<^verbatim>\<open>LogFields\<close> calls. The tracer numbers the spans it starts and keeps the
  spans started and the spans finished, each as it was at that moment. These
  logs hold the calls the tracing client makes itself; the wrapped client is a
  function of its arguments.
\<close>

datatype tag_value = TagString string | TagBool bool

datatype log_field = LogString string string | LogError error

record Span =
  SpanID :: nat
  OperationName :: string
  ParentID :: "nat option"
  Tags :: "(string \<times> tag_value) list"
  Logs :: "log_field list list"

record Tracer =
  NextID :: nat
  Started :: "Span list"
  Finished :: "Span list"

text \<open>
  \<^verbatim>\<open>context.Context\<close>: the active span, if any, and everything else it carries
  (deadline, cancellation, values), which the tracing client never reads.
\<close>

record Context =
  ActiveSpan :: "nat option"
  Carried :: string

definition SetTag :: "Span \<Rightarrow> string \<Rightarrow> tag_value \<Rightarrow> Span" where
  "SetTag sp k v = sp\<lparr>Tags := Tags sp @ [(k, v)]\<rparr>"

definition LogFields :: "Span \<Rightarrow> log_field list \<Rightarrow> Span" where
  "LogFields sp fs = sp\<lparr>Logs := Logs sp @ [fs]\<rparr>"

definition Finish :: "Span \<Rightarrow> Tracer \<Rightarrow> Tracer" where
  "Finish sp tr = tr\<lparr>Finished := Finished tr @ [sp]\<rparr>"

definition StartSpan ::
  "string \<Rightarrow> nat option \<Rightarrow> (string \<times> tag_value) list \<Rightarrow> Tracer \<Rightarrow> Span \<times> Tracer" where
  "StartSpan name parent tags tr =
     (let sp = \<lparr>SpanID = NextID tr, OperationName = name, ParentID = parent,
                Tags = tags, Logs = []\<rparr>
      in (sp, tr\<lparr>NextID := NextID tr + 1, Started := Started tr @ [sp]\<rparr>))"

text \<open>
  \<^verbatim>\<open>ot.StartSpanFromContext\<close>: the new span is a child of the span active in the
  context, and the context returned carries the new span.
\<close>

definition StartSpanFromContext ::
  "Context \<Rightarrow> string \<Rightarrow> (string \<times> tag_value) list \<Rightarrow> Tracer \<Rightarrow> Span \<times> Context \<times> Tracer" where
  "StartSpanFromContext ctx name tags tr =
     (let (sp, tr') = StartSpan name (ActiveSpan ctx) tags tr
      in (sp, ctx\<lparr>ActiveSpan := Some (SpanID sp)\<rparr>, tr'))"

section \<open>The wrapped client\<close>

text \<open>
  Every method of \<^verbatim>\<open>client.Client\<close> takes the object by pointer and returns an
  error; the result here is the object as the method left it, with the error.
  Options are passed through and never inspected. A \<^verbatim>\<open>client.Patch\<close> is used
  through \<^verbatim>\<open>Data\<close>, which gives the payload bytes or an error.
\<close>

type_synonym result = "Object \<times> error option"

record Patch =
  PatchType :: string
  PatchData :: "Object \<Rightarrow> error + string"

record StatusWriter =
  status_Update :: "Context \<Rightarrow> Object \<Rightarrow> string list \<Rightarrow> result"
  status_Patch :: "Context \<Rightarrow> Object \<Rightarrow> Patch \<Rightarrow> string list \<Rightarrow> result"

record Client =
  client_Get :: "Context \<Rightarrow> ObjectKey \<Rightarrow> Object \<Rightarrow> result"
  client_List :: "Context \<Rightarrow> Object \<Rightarrow> string list \<Rightarrow> result"
  client_Create :: "Context \<Rightarrow> Object \<Rightarrow> string list \<Rightarrow> result"
  client_Delete :: "Context \<Rightarrow> Object \<Rightarrow> string list \<Rightarrow> result"
  client_Update :: "Context \<Rightarrow> Object \<Rightarrow> string list \<Rightarrow> result"
  client_Patch :: "Context \<Rightarrow> Object \<Rightarrow> Patch \<Rightarrow> string list \<Rightarrow> result"
  client_DeleteAllOf :: "Context \<Rightarrow> Object \<Rightarrow> string list \<Rightarrow> result"
  client_Status :: StatusWriter

section \<open>util/tracing/runtime\_client.go\<close>

record tracingClient =
  Client :: Client
  scheme :: "Scheme option"

record tracingStatusWriter =
  StatusWriter :: StatusWriter

definition setObjectTags :: "Span \<Rightarrow> Object \<Rightarrow> Span" where
  "setObjectTags sp obj =
     (let gvk = ObjectKind obj;
          sp1 = (if \<not> gvk_Empty gvk
                 then SetTag sp ''objectKind'' (TagString (gvk_String gvk)) else sp)
      in case Accessor obj of
           Some (ns, n) \<Rightarrow> SetTag sp1 ''objectKey'' (TagString (ns @ ''/'' @ n))
         | None \<Rightarrow> sp1)"

definition traceError :: "Span \<Rightarrow> error option \<Rightarrow> Span \<times> error option" where
  "traceError sp err =
     (case err of
        Some e \<Rightarrow> (LogFields (SetTag sp ''error'' (TagBool True)) [LogError e], err)
      | None \<Rightarrow> (sp, err))"

definition setBlankObjectTags :: "tracingClient \<Rightarrow> Span \<Rightarrow> Object \<Rightarrow> Span" where
  "setBlankObjectTags c sp obj =
     (case scheme c of
        None \<Rightarrow> sp
      | Some s \<Rightarrow>
          (case s obj of
             (gvks, _, _) \<Rightarrow>
               fold (\<lambda>gvk sp'. SetTag sp' ''objectKind'' (TagString (gvk_String gvk))) gvks sp))"

text \<open>
  Each method starts its span, tags it, calls the wrapped client with the context
  that carries the span, passes the error through \<open>traceError\<close> and, as the
  deferred call of the source does, finishes the span last.
\<close>

definition tracingClient_Get ::
  "tracingClient \<Rightarrow> Context \<Rightarrow> ObjectKey \<Rightarrow> Object \<Rightarrow> Tracer \<Rightarrow> result \<times> Tracer" where
  "tracingClient_Get c ctx key obj tr =
     (let (sp, ctx', tr1) =
            StartSpanFromContext ctx ''k8s.Get'' [(''objectKey'', TagString (key_String key))] tr;
          sp1 = setBlankObjectTags c sp obj;
          (obj', err) = client_Get (Client c) ctx' key obj;
          (sp2, r) = traceError sp1 err
      in ((obj', r), Finish sp2 tr1))"

definition tracingClient_List ::
  "tracingClient \<Rightarrow> Context \<Rightarrow> Object \<Rightarrow> string list \<Rightarrow> Tracer \<Rightarrow> result \<times> Tracer" where
  "tracingClient_List c ctx list opts tr =
     (let (sp, ctx', tr1) = StartSpanFromContext ctx ''k8s.List'' [] tr;
          sp1 = setBlankObjectTags c sp list;
          (list', err) = client_List (Client c) ctx' list opts;
          (sp2, r) = traceError sp1 err
      in ((list', r), Finish sp2 tr1))"

definition tracingClient_Create ::
  "tracingClient \<Rightarrow> Context \<Rightarrow> Object \<Rightarrow> string list \<Rightarrow> Tracer \<Rightarrow> result \<times> Tracer" where
  "tracingClient_Create c ctx obj opts tr =
     (let (sp, ctx', tr1) = StartSpanFromContext ctx ''k8s.Create'' [] tr;
          sp1 = setObjectTags sp obj;
          (obj', err) = client_Create (Client c) ctx' obj opts;
          (sp2, r) = traceError sp1 err
      in ((obj', r), Finish sp2 tr1))"

definition tracingClient_Delete ::
  "tracingClient \<Rightarrow> Context \<Rightarrow> Object \<Rightarrow> string list \<Rightarrow> Tracer \<Rightarrow> result \<times> Tracer" where
  "tracingClient_Delete c ctx obj opts tr =
     (let (sp, ctx', tr1) = StartSpanFromContext ctx ''k8s.Delete'' [] tr;
          sp1 = setObjectTags sp obj;
          (obj', err) = client_Delete (Client c) ctx' obj opts;
          (sp2, r) = traceError sp1 err
      in ((obj', r), Finish sp2 tr1))"

definition tracingClient_Update ::
  "tracingClient \<Rightarrow> Context \<Rightarrow> Object \<Rightarrow> string list \<Rightarrow> Tracer \<Rightarrow> result \<times> Tracer" where
  "tracingClient_Update c ctx obj opts tr =
     (let (sp, ctx', tr1) = StartSpanFromContext ctx ''k8s.Update'' [] tr;
          sp1 = setObjectTags sp obj;
          (obj', err) = client_Update (Client c) ctx' obj opts;
          (sp2, r) = traceError sp1 err
      in ((obj', r), Finish sp2 tr1))"

text \<open>
  \<open>logPatch\<close> is the \<^verbatim>\<open>if data, err := patch.Data(obj); err == nil\<close> statement
  of both patch methods: the payload is logged when it serialises and skipped
  otherwise.
\<close>

definition logPatch :: "Span \<Rightarrow> Patch \<Rightarrow> Object \<Rightarrow> Span" where
  "logPatch sp patch obj =
     (case PatchData patch obj of
        Inr data \<Rightarrow> LogFields sp [LogString ''patch'' data]
      | Inl _ \<Rightarrow> sp)"

definition tracingClient_Patch ::
  "tracingClient \<Rightarrow> Context \<Rightarrow> Object \<Rightarrow> Patch \<Rightarrow> string list \<Rightarrow> Tracer \<Rightarrow> result \<times> Tracer" where
  "tracingClient_Patch c ctx obj patch opts tr =
     (let (sp, ctx', tr1) = StartSpanFromContext ctx ''k8s.Patch'' [] tr;
          sp1 = setObjectTags sp obj;
          sp2 = logPatch sp1 patch obj;
          (obj', err) = client_Patch (Client c) ctx' obj patch opts;
          (sp3, r) = traceError sp2 err
      in ((obj', r), Finish sp3 tr1))"

definition tracingClient_DeleteAllOf ::
  "tracingClient \<Rightarrow> Context \<Rightarrow> Object \<Rightarrow> string list \<Rightarrow> Tracer \<Rightarrow> result \<times> Tracer" where
  "tracingClient_DeleteAllOf c ctx obj opts tr =
     (let (sp, ctx', tr1) = StartSpanFromContext ctx ''k8s.DeleteAllOf'' [] tr;
          sp1 = setBlankObjectTags c sp obj;
          (obj', err) = client_DeleteAllOf (Client c) ctx' obj opts;
          (sp2, r) = traceError sp1 err
      in ((obj', r), Finish sp2 tr1))"

definition tracingClient_Status :: "tracingClient \<Rightarrow> tracingStatusWriter" where
  "tracingClient_Status c = \<lparr>StatusWriter = client_Status (Client c)\<rparr>"

definition tracingStatusWriter_Update ::
  "tracingStatusWriter \<Rightarrow> Context \<Rightarrow> Object \<Rightarrow> string list \<Rightarrow> Tracer \<Rightarrow> result \<times> Tracer" where
  "tracingStatusWriter_Update s ctx obj opts tr =
     (let (sp, ctx', tr1) = StartSpanFromContext ctx ''k8s.Status.Update'' [] tr;
          sp1 = setObjectTags sp obj;
          (obj', err) = status_Update (StatusWriter s) ctx' obj opts;
          (sp2, r) = traceError sp1 err
      in ((obj', r), Finish sp2 tr1))"

definition tracingStatusWriter_Patch ::
  "tracingStatusWriter \<Rightarrow> Context \<Rightarrow> Object \<Rightarrow> Patch \<Rightarrow> string list \<Rightarrow> Tracer
     \<Rightarrow> result \<times> Tracer" where
  "tracingStatusWriter_Patch s ctx obj patch opts tr =
     (let (sp, ctx', tr1) = StartSpanFromContext ctx ''k8s.Status.Patch'' [] tr;
          sp1 = setObjectTags sp obj;
          sp2 = logPatch sp1 patch obj;
          (obj', err) = status_Patch (StatusWriter s) ctx' obj patch opts;
          (sp3, r) = traceError sp2 err
      in ((obj', r), Finish sp3 tr1))"

text \<open>
  The cache and the constructor options, as far as the constructors use them. A
  constructor returns a client or an error.
\<close>

record Cache =
  cache_Get :: "Context \<Rightarrow> ObjectKey \<Rightarrow> Object \<Rightarrow> result"
  cache_List :: "Context \<Rightarrow> Object \<Rightarrow> string list \<Rightarrow> result"

record Options =
  Scheme :: "Scheme option"
  Mapper :: string

text \<open>
  The \<^verbatim>\<open>client.DelegatingClient\<close> literal of \<open>NewRuntimeClient\<close>: reads through
  a \<^verbatim>\<open>DelegatingReader\<close>, writes and status through the client. The reader's
  \<^verbatim>\<open>Get\<close> asks the client itself when the object is an
  \<^verbatim>\<open>*unstructured.Unstructured\<close>, its \<^verbatim>\<open>List\<close> when the list is an
  \<^verbatim>\<open>*unstructured.UnstructuredList\<close>; both ask the cache otherwise.
\<close>

definition DelegatingClient :: "Cache \<Rightarrow> Client \<Rightarrow> Client" where
  "DelegatingClient cache c =
     \<lparr>client_Get = (\<lambda>ctx key obj.
          if DynamicType obj = UnstructuredPtr then client_Get c ctx key obj
          else cache_Get cache ctx key obj),
      client_List = (\<lambda>ctx list opts.
          if DynamicType list = UnstructuredListPtr then client_List c ctx list opts
          else cache_List cache ctx list opts),
      client_Create = client_Create c,
      client_Delete = client_Delete c,
      client_Update = client_Update c,
      client_Patch = client_Patch c,
      client_DeleteAllOf = client_DeleteAllOf c,
      client_Status = client_Status c\<rparr>"

text \<open>
  \<open>NewRuntimeClient\<close> takes \<^verbatim>\<open>client.New\<close> of controller-runtime as its first
  argument, \<open>WrapRuntimeClient\<close> the upstream constructor as the source does.
\<close>

definition NewRuntimeClient ::
  "(string \<Rightarrow> Options \<Rightarrow> error + Client) \<Rightarrow> Cache \<Rightarrow> string \<Rightarrow> Options
     \<Rightarrow> error + tracingClient" where
  "NewRuntimeClient client_New cache config options =
     (case client_New config options of
        Inl err \<Rightarrow> Inl err
      | Inr c \<Rightarrow> Inr \<lparr>Client = DelegatingClient cache c, scheme = Scheme options\<rparr>)"

definition WrapRuntimeClient ::
  "(Cache \<Rightarrow> string \<Rightarrow> Options \<Rightarrow> error + Client)
     \<Rightarrow> (Cache \<Rightarrow> string \<Rightarrow> Options \<Rightarrow> error + tracingClient)" where
  "WrapRuntimeClient upstreamNew =
     (\<lambda>cache config options.
        case upstreamNew cache config options of
          Inl err \<Rightarrow> Inl err
        | Inr delegatingClient \<Rightarrow> Inr \<lparr>Client = delegatingClient, scheme = Scheme options\<rparr>)"

subsection \<open>One invocation of any operation\<close>

text \<open>
  The nine traced operations with their arguments. \<open>invoke\<close> runs the tracing
  client's method for a call (the two status operations through the writer that
  \<open>tracingClient_Status\<close> returns) and \<open>delegate\<close> runs the wrapped client's
  method for the same call.
\<close>

datatype Call =
    GetCall ObjectKey Object
  | ListCall Object "string list"
  | CreateCall Object "string list"
  | DeleteCall Object "string list"
  | UpdateCall Object "string list"
  | PatchCall Object Patch "string list"
  | DeleteAllOfCall Object "string list"
  | StatusUpdateCall Object "string list"
  | StatusPatchCall Object Patch "string list"

fun invoke :: "tracingClient \<Rightarrow> Context \<Rightarrow> Call \<Rightarrow> Tracer \<Rightarrow> result \<times> Tracer" where
  "invoke c ctx (GetCall key obj) tr = tracingClient_Get c ctx key obj tr"
| "invoke c ctx (ListCall list opts) tr = tracingClient_List c ctx list opts tr"
| "invoke c ctx (CreateCall obj opts) tr = tracingClient_Create c ctx obj opts tr"
| "invoke c ctx (DeleteCall obj opts) tr = tracingClient_Delete c ctx obj opts tr"
| "invoke c ctx (UpdateCall obj opts) tr = tracingClient_Update c ctx obj opts tr"
| "invoke c ctx (PatchCall obj patch opts) tr = tracingClient_Patch c ctx obj patch opts tr"
| "invoke c ctx (DeleteAllOfCall obj opts) tr = tracingClient_DeleteAllOf c ctx obj opts tr"
| "invoke c ctx (StatusUpdateCall obj opts) tr =
     tracingStatusWriter_Update (tracingClient_Status c) ctx obj opts tr"
| "invoke c ctx (StatusPatchCall obj patch opts) tr =
     tracingStatusWriter_Patch (tracingClient_Status c) ctx obj patch opts tr"

fun delegate :: "Client \<Rightarrow> Context \<Rightarrow> Call \<Rightarrow> result" where
  "delegate d ctx (GetCall key obj) = client_Get d ctx key obj"
| "delegate d ctx (ListCall list opts) = client_List d ctx list opts"
| "delegate d ctx (CreateCall obj opts) = client_Create d ctx obj opts"
| "delegate d ctx (DeleteCall obj opts) = client_Delete d ctx obj opts"
| "delegate d ctx (UpdateCall obj opts) = client_Update d ctx obj opts"
| "delegate d ctx (PatchCall obj patch opts) = client_Patch d ctx obj patch opts"
| "delegate d ctx (DeleteAllOfCall obj opts) = client_DeleteAllOf d ctx obj opts"
| "delegate d ctx (StatusUpdateCall obj opts) = status_Update (client_Status d) ctx obj opts"
| "delegate d ctx (StatusPatchCall obj patch opts) =
     status_Patch (client_Status d) ctx obj patch opts"

text \<open>The operations that ask the scheme for the kind of their object, with that object.\<close>

fun blankObject :: "Call \<Rightarrow> Object option" where
  "blankObject (GetCall key obj) = Some obj"
| "blankObject (ListCall list opts) = Some list"
| "blankObject (DeleteAllOfCall obj opts) = Some obj"
| "blankObject _ = None"

text \<open>
  Reading a span: it carries a tag key when some \<^verbatim>\<open>SetTag\<close> call used the key,
  and it is an error span when the \<^verbatim>\<open>error\<close> tag was set to true.
\<close>

definition hasTag :: "Span \<Rightarrow> string \<Rightarrow> bool" where
  "hasTag sp k = (k \<in> fst ` set (Tags sp))"

definition errorFlag :: "Span \<Rightarrow> bool" where
  "errorFlag sp = ((''error'', TagBool True) \<in> set (Tags sp))"

text \<open>
  The span an invocation finished, the candidate kinds the client's scheme gives
  for an object (none when the client has no scheme), and the \<^verbatim>\<open>objectKind\<close>
  tags for a list of kinds.
\<close>

definition finishedSpan :: "result \<times> Tracer \<Rightarrow> Span" where
  "finishedSpan r = last (Finished (snd r))"

definition candidateKinds :: "tracingClient \<Rightarrow> Object \<Rightarrow> GroupVersionKind list" where
  "candidateKinds c obj = (case scheme c of None \<Rightarrow> [] | Some s \<Rightarrow> fst (s obj))"

definition kindTags :: "GroupVersionKind list \<Rightarrow> (string \<times> tag_value) list" where
  "kindTags gvks = map (\<lambda>gvk. (''objectKind'', TagString (gvk_String gvk))) gvks"

text \<open>
  Between two states of the tracer, exactly one span was started and exactly one
  was finished, and they are the same span.
\<close>

definition oneSpan :: "Tracer \<Rightarrow> Tracer \<Rightarrow> bool" where
  "oneSpan tr tr' =
     (length (Started tr') = length (Started tr) + 1 \<and>
      butlast (Started tr') = Started tr \<and>
      length (Finished tr') = length (Finished tr) + 1 \<and>
      butlast (Finished tr') = Finished tr \<and>
      SpanID (last (Finished tr')) = SpanID (last (Started tr')) \<and>
      OperationName (last (Finished tr')) = OperationName (last (Started tr')))"

section \<open>Stamping objects with the span context\<close>

text \<open>
  An \<^verbatim>\<open>unstructured.Unstructured\<close> is a struct with one field, the map
  \<^verbatim>\<open>Object\<close>, which Go holds by reference: \<open>None\<close> is the \<^verbatim>\<open>nil\<close> map and
  \<open>Some p\<close> the map stored at address \<open>p\<close>. Of a map the model keeps what is
  under \<^verbatim>\<open>metadata\<close> and, as one value, the rest. The \<^verbatim>\<open>metadata\<close> entry is
  absent, or a value that is not a map, or a map; in that map the
  \<^verbatim>\<open>annotations\<close> entry is again absent, or a value that is not a map, or a
  map. Of an annotations map the model keeps the entries whose value is a string
  and whether there is an entry whose value is not a string; the rest of the
  metadata map is one value.
\<close>

type_synonym addr = nat

datatype annotations =
    NoAnnotations
  | AnnotationsNotMap
  | AnnotationsMap "string \<rightharpoonup> string" bool

datatype metadata =
    NoMetadata
  | MetadataNotMap
  | MetadataMap annotations string

record Content =
  Metadata :: metadata
  Rest :: string

record Heap =
  Cells :: "addr \<Rightarrow> Content"
  NextAddr :: addr

record Unstructured =
  Object :: "addr option"

text \<open>
  \<^verbatim>\<open>GetAnnotations\<close> is \<^verbatim>\<open>NestedStringMap(u.Object, "metadata", "annotations")\<close>
  with the found flag and the error dropped: a copy of the annotations when
  both levels are maps and every value is a string, \<^verbatim>\<open>nil\<close> in every other
  case.
\<close>

definition GetAnnotations :: "Unstructured \<Rightarrow> Heap \<Rightarrow> (string \<rightharpoonup> string) option" where
  "GetAnnotations u h =
     (case Object u of
        None \<Rightarrow> None
      | Some p \<Rightarrow>
          (case Metadata (Cells h p) of
             MetadataMap (AnnotationsMap m other) rest \<Rightarrow> if other then None else Some m
           | _ \<Rightarrow> None))"

text \<open>
  \<^verbatim>\<open>SetAnnotations\<close>, called with a map that is not \<^verbatim>\<open>nil\<close>. Its receiver is a
  pointer: when the receiver's \<^verbatim>\<open>Object\<close> is \<^verbatim>\<open>nil\<close> it first makes a new map
  and assigns it to the receiver's field. Then \<^verbatim>\<open>SetNestedStringMap\<close> stores a
  copy of the annotations under \<^verbatim>\<open>metadata\<close>, making the metadata map when there
  is none and replacing whatever was under \<^verbatim>\<open>annotations\<close>; when
  \<^verbatim>\<open>metadata\<close> is not a map it returns an error, which \<^verbatim>\<open>SetAnnotations\<close>
  drops, and the object is as before.
\<close>

definition SetAnnotations ::
  "Unstructured \<Rightarrow> (string \<rightharpoonup> string) \<Rightarrow> Heap \<Rightarrow> Unstructured \<times> Heap" where
  "SetAnnotations u a h =
     (case Object u of
        None \<Rightarrow>
          (let p = NextAddr h
           in (u\<lparr>Object := Some p\<rparr>,
               h\<lparr>Cells := (Cells h)
                    (p := \<lparr>Metadata = MetadataMap (AnnotationsMap a False) [], Rest = []\<rparr>),
                 NextAddr := p + 1\<rparr>))
      | Some p \<Rightarrow>
          (case Metadata (Cells h p) of
             NoMetadata \<Rightarrow>
               (u, h\<lparr>Cells := (Cells h)
                      (p := (Cells h p)\<lparr>Metadata := MetadataMap (AnnotationsMap a False) []\<rparr>)\<rparr>)
           | MetadataNotMap \<Rightarrow> (u, h)
           | MetadataMap old rest \<Rightarrow>
               (u, h\<lparr>Cells := (Cells h)
                      (p := (Cells h p)\<lparr>Metadata := MetadataMap (AnnotationsMap a False) rest\<rparr>)\<rparr>)))"

text \<open>
  The calls \<open>AddTraceAnnotation\<close> makes, in order: to the encoder with the span,
  and to the two methods with the value of the loop variable.
\<close>

datatype stamp_call =
    EncodeCalled Span
  | GetAnnotationsCalled Unstructured
  | SetAnnotationsCalled Unstructured

text \<open>
  The body of the loop, lines 17 to 22, on the loop variable \<open>u\<close>: it returns
  the loop variable and the heap as \<^verbatim>\<open>SetAnnotations\<close> leaves them.
\<close>

definition stampObject ::
  "string \<Rightarrow> string \<Rightarrow> Unstructured \<Rightarrow> Heap \<Rightarrow> Unstructured \<times> Heap" where
  "stampObject key spanContext u h =
     (let a = (case GetAnnotations u h of None \<Rightarrow> Map.empty | Some m \<Rightarrow> m)
      in SetAnnotations u (a(key \<mapsto> spanContext)) h)"

text \<open>
  The loop. \<^verbatim>\<open>for _, o := range objs\<close> copies each element of the slice into
  the loop variable, the body works on that copy, and nothing is assigned back
  to the slice: the copy \<open>u'\<close> that the body leaves is dropped at the end of the
  iteration, and what the caller sees afterwards is its own slice over the new
  heap. The encoded string is an argument: the loop does not call the encoder.
\<close>

fun stampLoop ::
  "string \<Rightarrow> string \<Rightarrow> Unstructured list \<Rightarrow> Heap \<Rightarrow> Heap \<times> stamp_call list" where
  "stampLoop key spanContext [] h = (h, [])"
| "stampLoop key spanContext (u # objs) h =
     (let (u', h') = stampObject key spanContext u h;
          (h'', calls) = stampLoop key spanContext objs h'
      in (h'', GetAnnotationsCalled u # SetAnnotationsCalled u # calls))"

text \<open>
  The constant \<^verbatim>\<open>TraceAnnotationKey\<close> and the function
  \<^verbatim>\<open>GenerateEmbeddableSpanContext\<close> are declared in another file of the
  package; they are the first two arguments. The result is the error, the heap
  and the calls made.
\<close>

definition AddTraceAnnotation ::
  "string \<Rightarrow> (Span \<Rightarrow> error + string) \<Rightarrow> Unstructured list \<Rightarrow> Span \<Rightarrow> Heap
     \<Rightarrow> error option \<times> Heap \<times> stamp_call list" where
  "AddTraceAnnotation TraceAnnotationKey GenerateEmbeddableSpanContext objs span h =
     (case GenerateEmbeddableSpanContext span of
        Inl err \<Rightarrow> (Some err, h, [EncodeCalled span])
      | Inr spanContext \<Rightarrow>
          (let (h', calls) = stampLoop TraceAnnotationKey spanContext objs h
           in (None, h', EncodeCalled span # calls)))"

section \<open>cmd/clusterctl/cmd/move.go\<close>

record moveOptions =
  fromKubeconfig :: string
  namespace :: string
  toKubeconfig :: string

record MoveOptions =
  Move_FromKubeconfig :: string
  Move_ToKubeconfig :: string
  Move_Namespace :: string

record clusterctlClient =
  Move :: "MoveOptions \<Rightarrow> error option"

text \<open>
  \<open>runMove\<close> reads the package variables \<^verbatim>\<open>mo\<close> and \<^verbatim>\<open>cfgFile\<close> and calls
  \<^verbatim>\<open>client.New\<close> of clusterctl, here its three arguments. Beside the error it
  returns the calls it made, in order.
\<close>

datatype move_call = NewCalled string | MoveCalled MoveOptions

definition runMove ::
  "moveOptions \<Rightarrow> string \<Rightarrow> (string \<Rightarrow> error + clusterctlClient)
     \<Rightarrow> error option \<times> move_call list" where
  "runMove mo cfgFile client_New =
     (if toKubeconfig mo = []
      then (Some (Error ''please specify a target cluster using the --to-kubeconfig flag''), [])
      else
        (case client_New cfgFile of
           Inl err \<Rightarrow> (Some err, [NewCalled cfgFile])
         | Inr c \<Rightarrow>
             (let opts = \<lparr>Move_FromKubeconfig = fromKubeconfig mo,
                          Move_ToKubeconfig = toKubeconfig mo,
                          Move_Namespace = namespace mo\<rparr>
              in case Move c opts of
                   Some err \<Rightarrow> (Some err, [NewCalled cfgFile, MoveCalled opts])
                 | None \<Rightarrow> (None, [NewCalled cfgFile, MoveCalled opts]))))"

section \<open>Concrete collaborators for the scenarios\<close>

text \<open>
  A wrapped client whose every method returns the given error; \<open>Get\<close> also
  fills in the object, the others leave it as it is.
\<close>

definition fakeStatusWriter :: "error option \<Rightarrow> StatusWriter" where
  "fakeStatusWriter e =
     \<lparr>status_Update = (\<lambda>ctx obj opts. (obj, e)),
      status_Patch = (\<lambda>ctx obj patch opts. (obj, e))\<rparr>"

definition fakeClient :: "error option \<Rightarrow> Client" where
  "fakeClient e =
     \<lparr>client_Get = (\<lambda>ctx key obj. (obj\<lparr>Body := ''fetched''\<rparr>, e)),
      client_List = (\<lambda>ctx list opts. (list, e)),
      client_Create = (\<lambda>ctx obj opts. (obj, e)),
      client_Delete = (\<lambda>ctx obj opts. (obj, e)),
      client_Update = (\<lambda>ctx obj opts. (obj, e)),
      client_Patch = (\<lambda>ctx obj patch opts. (obj, e)),
      client_DeleteAllOf = (\<lambda>ctx obj opts. (obj, e)),
      client_Status = fakeStatusWriter e\<rparr>"

text \<open>A scheme that gives the same candidate kinds for every object.\<close>

definition fakeScheme :: "GroupVersionKind list \<Rightarrow> Scheme" where
  "fakeScheme gvks = (\<lambda>obj. (gvks, False, None))"

definition newTracer :: Tracer where
  "newTracer = \<lparr>NextID = 0, Started = [], Finished = []\<rparr>"

definition background :: Context where
  "background = \<lparr>ActiveSpan = None, Carried = []\<rparr>"

text \<open>An object that declares no kind and is named \<^verbatim>\<open>ns1/name1\<close>.\<close>

definition machine :: Object where
  "machine = \<lparr>ObjectKind = \<lparr>Group = [], Version = [], Kind = []\<rparr>,
              Accessor = Some (''ns1'', ''name1''), DynamicType = OtherType, Body = []\<rparr>"

definition key1 :: ObjectKey where
  "key1 = \<lparr>Namespace = ''ns1'', Name = ''name1''\<rparr>"

definition machineV3 :: GroupVersionKind where
  "machineV3 = \<lparr>Group = ''cluster.x-k8s.io'', Version = ''v1alpha3'', Kind = ''Machine''\<rparr>"

definition machineV2 :: GroupVersionKind where
  "machineV2 = \<lparr>Group = ''cluster.x-k8s.io'', Version = ''v1alpha2'', Kind = ''Machine''\<rparr>"

text \<open>
  A heap with one object map at address 0, which has one annotation, and the
  span whose context is to be stamped.
\<close>

definition emptyContent :: Content where
  "emptyContent = \<lparr>Metadata = NoMetadata, Rest = []\<rparr>"

definition oneObjectHeap :: Heap where
  "oneObjectHeap =
     \<lparr>Cells = (\<lambda>p. if p = 0
                    then \<lparr>Metadata =
                            MetadataMap (AnnotationsMap [''owner'' \<mapsto> ''team-a''] False)
                              ''name: m1'',
                          Rest = ''spec''\<rparr>
                    else emptyContent),
      NextAddr = 1\<rparr>"

definition rootSpan :: Span where
  "rootSpan = \<lparr>SpanID = 0, OperationName = ''move'', ParentID = None, Tags = [], Logs = []\<rparr>"

text \<open>A clusterctl client whose \<open>Move\<close> returns the given error, and the options of a move.\<close>

definition fakeMover :: "error option \<Rightarrow> clusterctlClient" where
  "fakeMover e = \<lparr>Move = (\<lambda>opts. e)\<rparr>"

definition target :: moveOptions where
  "target = \<lparr>fromKubeconfig = [], namespace = ''default'',
              toKubeconfig = ''target-kubeconfig.yaml''\<rparr>"

section \<open>Properties of the tracing client\<close>

lemmas operation_defs =
  tracingClient_Get_def tracingClient_List_def tracingClient_Create_def
  tracingClient_Delete_def tracingClient_Update_def tracingClient_Patch_def
  tracingClient_DeleteAllOf_def tracingClient_Status_def tracingStatusWriter_Update_def
  tracingStatusWriter_Patch_def

lemma SetTag_identity [simp]:
  "SpanID (SetTag sp k v) = SpanID sp"
  "OperationName (SetTag sp k v) = OperationName sp"
  by (simp_all add: SetTag_def)

lemma LogFields_identity [simp]:
  "SpanID (LogFields sp fs) = SpanID sp"
  "OperationName (LogFields sp fs) = OperationName sp"
  by (simp_all add: LogFields_def)

lemma setObjectTags_identity [simp]:
  "SpanID (setObjectTags sp obj) = SpanID sp"
  "OperationName (setObjectTags sp obj) = OperationName sp"
  by (simp_all add: setObjectTags_def Let_def split: option.splits)

lemma fold_SetTag_identity:
  "SpanID (fold (\<lambda>x sp'. SetTag sp' k (f x)) xs sp) = SpanID sp \<and>
   OperationName (fold (\<lambda>x sp'. SetTag sp' k (f x)) xs sp) = OperationName sp"
  by (induction xs arbitrary: sp) simp_all

lemma setBlankObjectTags_identity [simp]:
  "SpanID (setBlankObjectTags c sp obj) = SpanID sp"
  "OperationName (setBlankObjectTags c sp obj) = OperationName sp"
  by (simp_all add: setBlankObjectTags_def fold_SetTag_identity split: option.splits prod.splits)

lemma logPatch_identity [simp]:
  "SpanID (logPatch sp patch obj) = SpanID sp"
  "OperationName (logPatch sp patch obj) = OperationName sp"
  by (simp_all add: logPatch_def split: sum.splits)

lemma traceError_identity [simp]:
  "SpanID (fst (traceError sp err)) = SpanID sp"
  "OperationName (fst (traceError sp err)) = OperationName sp"
  by (simp_all add: traceError_def split: option.splits)

lemma invoke_result:
  "fst (invoke c ctx call tr) =
     delegate (Client c) (ctx\<lparr>ActiveSpan := Some (NextID tr)\<rparr>) call"
  by (cases call)
     (simp_all add: operation_defs StartSpanFromContext_def StartSpan_def Let_def
        traceError_def split: prod.splits option.splits)

text \<open>
  C1. Whatever the operation, its arguments and the wrapped client, the tracing
  client returns the object and the error that the wrapped client's method
  returns for the same arguments and the context that carries the new span; the
  result is not replaced, wrapped or dropped.
\<close>

theorem invoke_returns_delegate_result:
  "fst (invoke c ctx call tr) =
     delegate (Client c) (ctx\<lparr>ActiveSpan := Some (NextID tr)\<rparr>) call"
  by (rule invoke_result)

text \<open>
  C2. Whatever the operation and its outcome (the wrapped client succeeds or
  fails, the patch payload serialises or not, the scheme resolves a kind or
  not), one invocation starts exactly one span and finishes exactly one span,
  the span it started, before it returns.
\<close>

theorem invoke_one_span:
  "oneSpan tr (snd (invoke c ctx call tr))"
  by (cases call)
     (simp_all add: operation_defs oneSpan_def StartSpanFromContext_def StartSpan_def
        Let_def Finish_def split_beta)

subsection \<open>The tags of a finished span\<close>

lemma fold_SetTag_Tags:
  "Tags (fold (\<lambda>gvk sp'. SetTag sp' ''objectKind'' (TagString (gvk_String gvk))) gvks sp) =
     Tags sp @ kindTags gvks"
  by (induction gvks arbitrary: sp) (simp_all add: SetTag_def kindTags_def)

lemma setBlankObjectTags_Tags:
  "Tags (setBlankObjectTags c sp obj) = Tags sp @ kindTags (candidateKinds c obj)"
  by (simp add: setBlankObjectTags_def candidateKinds_def fold_SetTag_Tags kindTags_def
      split: option.splits prod.splits)

lemma traceError_Tags:
  "Tags (fst (traceError sp err)) =
     Tags sp @ (case err of None \<Rightarrow> [] | Some e \<Rightarrow> [(''error'', TagBool True)])"
  by (simp add: traceError_def SetTag_def LogFields_def split: option.splits)

lemma Get_Tags:
  "Tags (finishedSpan (tracingClient_Get c ctx key obj tr)) =
     (''objectKey'', TagString (key_String key)) # kindTags (candidateKinds c obj) @
     (case snd (client_Get (Client c) (ctx\<lparr>ActiveSpan := Some (NextID tr)\<rparr>) key obj) of
        None \<Rightarrow> [] | Some e \<Rightarrow> [(''error'', TagBool True)])"
  by (simp add: tracingClient_Get_def finishedSpan_def StartSpanFromContext_def StartSpan_def
      Let_def Finish_def split_beta traceError_Tags setBlankObjectTags_Tags)

lemma List_Tags:
  "Tags (finishedSpan (tracingClient_List c ctx list opts tr)) =
     kindTags (candidateKinds c list) @
     (case snd (client_List (Client c) (ctx\<lparr>ActiveSpan := Some (NextID tr)\<rparr>) list opts) of
        None \<Rightarrow> [] | Some e \<Rightarrow> [(''error'', TagBool True)])"
  by (simp add: tracingClient_List_def finishedSpan_def StartSpanFromContext_def StartSpan_def
      Let_def Finish_def split_beta traceError_Tags setBlankObjectTags_Tags)

lemma DeleteAllOf_Tags:
  "Tags (finishedSpan (tracingClient_DeleteAllOf c ctx obj opts tr)) =
     kindTags (candidateKinds c obj) @
     (case snd (client_DeleteAllOf (Client c) (ctx\<lparr>ActiveSpan := Some (NextID tr)\<rparr>) obj opts) of
        None \<Rightarrow> [] | Some e \<Rightarrow> [(''error'', TagBool True)])"
  by (simp add: tracingClient_DeleteAllOf_def finishedSpan_def StartSpanFromContext_def
      StartSpan_def Let_def Finish_def split_beta traceError_Tags setBlankObjectTags_Tags)

text \<open>
  C6. When the scheme gives no candidate kind for the object of a get, a list or
  a delete-all-of-kind (it may return an error with that), the operation returns
  what the wrapped client returns and the finished span has no \<^verbatim>\<open>objectKind\<close>
  tag.
\<close>

theorem unresolved_kind_omits_tag:
  assumes "blankObject call = Some obj" and "candidateKinds c obj = []"
  shows "fst (invoke c ctx call tr) =
           delegate (Client c) (ctx\<lparr>ActiveSpan := Some (NextID tr)\<rparr>) call \<and>
         \<not> hasTag (finishedSpan (invoke c ctx call tr)) ''objectKind''"
proof -
  have "\<not> hasTag (finishedSpan (invoke c ctx call tr)) ''objectKind''"
    using assms
    by (cases call)
       (auto simp add: hasTag_def Get_Tags List_Tags DeleteAllOf_Tags kindTags_def
          split: option.splits)
  then show ?thesis
    by (simp add: invoke_result)
qed

theorem unresolved_kind_omits_tag_witness:
  "blankObject (ListCall machine []) = Some machine \<and>
   candidateKinds
     \<lparr>Client = fakeClient None,
      scheme = Some (\<lambda>obj. ([], False, Some (Error ''no kind is registered'')))\<rparr> machine = [] \<and>
   fst (invoke
     \<lparr>Client = fakeClient None,
      scheme = Some (\<lambda>obj. ([], False, Some (Error ''no kind is registered'')))\<rparr>
     background (ListCall machine []) newTracer) = (machine, None) \<and>
   \<not> hasTag (finishedSpan (invoke
     \<lparr>Client = fakeClient None,
      scheme = Some (\<lambda>obj. ([], False, Some (Error ''no kind is registered'')))\<rparr>
     background (ListCall machine []) newTracer)) ''objectKind''"
  using unresolved_kind_omits_tag
    [of "ListCall machine []" machine
        "\<lparr>Client = fakeClient None,
          scheme = Some (\<lambda>obj. ([], False, Some (Error ''no kind is registered'')))\<rparr>"
        background newTracer]
  by (simp add: candidateKinds_def fakeClient_def)

text \<open>
  C7. For a get, a list or a delete-all-of-kind, every candidate kind that the
  client's scheme gives for the object is set on the span as an \<^verbatim>\<open>objectKind\<close>
  tag.
\<close>

theorem candidate_kinds_tagged:
  assumes "blankObject call = Some obj" and "gvk \<in> set (candidateKinds c obj)"
  shows "(''objectKind'', TagString (gvk_String gvk)) \<in>
           set (Tags (finishedSpan (invoke c ctx call tr)))"
  using assms
  by (cases call) (auto simp add: Get_Tags List_Tags DeleteAllOf_Tags kindTags_def)

theorem candidate_kinds_tagged_witness:
  "blankObject (DeleteAllOfCall machine []) = Some machine \<and>
   machineV2 \<in> set (candidateKinds
     \<lparr>Client = fakeClient None, scheme = Some (fakeScheme [machineV2, machineV3])\<rparr> machine) \<and>
   (''objectKind'', TagString ''cluster.x-k8s.io/v1alpha2, Kind=Machine'') \<in>
     set (Tags (finishedSpan (invoke
       \<lparr>Client = fakeClient None, scheme = Some (fakeScheme [machineV2, machineV3])\<rparr>
       background (DeleteAllOfCall machine []) newTracer)))"
  using candidate_kinds_tagged
    [of "DeleteAllOfCall machine []" machine machineV2
        "\<lparr>Client = fakeClient None, scheme = Some (fakeScheme [machineV2, machineV3])\<rparr>"
        background newTracer]
  by (simp add: candidateKinds_def fakeScheme_def gvk_String_def machineV2_def)

text \<open>
  C8, as the claim states it: a delete-all-of-kind span is tagged with a lookup
  key. It is not: the operation takes an object and no key, and for the object
  named \<^verbatim>\<open>ns1/name1\<close> the finished span has no \<^verbatim>\<open>objectKey\<close> tag.
\<close>

theorem DeleteAllOf_span_has_no_objectKey:
  "\<not> hasTag (finishedSpan (tracingClient_DeleteAllOf
        \<lparr>Client = fakeClient None, scheme = None\<rparr> background machine [] newTracer))
      ''objectKey''"
  by (simp add: hasTag_def DeleteAllOf_Tags kindTags_def candidateKinds_def fakeClient_def)

text \<open>
  C8, amended. Get is the operation that receives a lookup key: its span is
  tagged \<^verbatim>\<open>objectKey\<close> with the key's string form, it returns what the wrapped
  client returns, and when the wrapped client succeeds the span has no error
  flag. Delete-all-of-kind receives an object and no key, and its span never has
  an \<^verbatim>\<open>objectKey\<close> tag.
\<close>

theorem Get_tags_key_DeleteAllOf_has_none:
  "(''objectKey'', TagString (key_String key)) \<in>
       set (Tags (finishedSpan (tracingClient_Get c ctx key obj tr))) \<and>
   fst (tracingClient_Get c ctx key obj tr) =
       client_Get (Client c) (ctx\<lparr>ActiveSpan := Some (NextID tr)\<rparr>) key obj \<and>
   (snd (client_Get (Client c) (ctx\<lparr>ActiveSpan := Some (NextID tr)\<rparr>) key obj) = None \<longrightarrow>
       \<not> errorFlag (finishedSpan (tracingClient_Get c ctx key obj tr))) \<and>
   \<not> hasTag (finishedSpan (tracingClient_DeleteAllOf c ctx obj opts tr)) ''objectKey''"
proof -
  have "fst (tracingClient_Get c ctx key obj tr) =
       client_Get (Client c) (ctx\<lparr>ActiveSpan := Some (NextID tr)\<rparr>) key obj"
    using invoke_result [of c ctx "GetCall key obj" tr] by simp
  then show ?thesis
    by (auto simp add: Get_Tags DeleteAllOf_Tags hasTag_def errorFlag_def kindTags_def
        split: option.splits)
qed

theorem Get_tags_key_DeleteAllOf_has_none_witness:
  "snd (client_Get (Client \<lparr>Client = fakeClient None, scheme = None\<rparr>)
          (background\<lparr>ActiveSpan := Some (NextID newTracer)\<rparr>) key1 machine) = None \<and>
   (''objectKey'', TagString ''ns1/name1'') \<in>
       set (Tags (finishedSpan (tracingClient_Get \<lparr>Client = fakeClient None, scheme = None\<rparr>
              background key1 machine newTracer))) \<and>
   fst (tracingClient_Get \<lparr>Client = fakeClient None, scheme = None\<rparr>
          background key1 machine newTracer) = (machine\<lparr>Body := ''fetched''\<rparr>, None) \<and>
   \<not> errorFlag (finishedSpan (tracingClient_Get \<lparr>Client = fakeClient None, scheme = None\<rparr>
          background key1 machine newTracer)) \<and>
   \<not> hasTag (finishedSpan (tracingClient_DeleteAllOf \<lparr>Client = fakeClient None, scheme = None\<rparr>
          background machine [] newTracer)) ''objectKey''"
  using Get_tags_key_DeleteAllOf_has_none
    [of key1 "\<lparr>Client = fakeClient None, scheme = None\<rparr>" background machine newTracer "[]"]
  by (simp add: fakeClient_def key_String_def key1_def)

section \<open>Properties of the constructors\<close>

text \<open>
  C10. When the underlying constructor fails, \<open>NewRuntimeClient\<close> and the
  function that \<open>WrapRuntimeClient\<close> produces return that error and no client:
  a tracing client exists only over a delegate that was constructed.
\<close>

theorem constructor_error_returned:
  assumes "client_New config options = Inl err"
    and "upstreamNew cache config options = Inl err'"
  shows "NewRuntimeClient client_New cache config options = Inl err \<and>
         WrapRuntimeClient upstreamNew cache config options = Inl err' \<and>
         (\<forall>tc. NewRuntimeClient client_New cache config options \<noteq> Inr tc) \<and>
         (\<forall>tc. WrapRuntimeClient upstreamNew cache config options \<noteq> Inr tc)"
  using assms by (simp add: NewRuntimeClient_def WrapRuntimeClient_def)

theorem constructor_error_returned_witness:
  "(\<lambda>cfg opts. Inl (Error ''no host'')) ''cfg'' \<lparr>Scheme = None, Mapper = []\<rparr> =
     (Inl (Error ''no host'') :: error + Client) \<and>
   (\<lambda>ch cfg opts. Inl (Error ''no cache'')) \<lparr>cache_Get = client_Get (fakeClient None),
        cache_List = client_List (fakeClient None)\<rparr> ''cfg'' \<lparr>Scheme = None, Mapper = []\<rparr> =
     (Inl (Error ''no cache'') :: error + Client) \<and>
   NewRuntimeClient (\<lambda>cfg opts. Inl (Error ''no host''))
     \<lparr>cache_Get = client_Get (fakeClient None), cache_List = client_List (fakeClient None)\<rparr>
     ''cfg'' \<lparr>Scheme = None, Mapper = []\<rparr> = Inl (Error ''no host'') \<and>
   WrapRuntimeClient (\<lambda>ch cfg opts. Inl (Error ''no cache''))
     \<lparr>cache_Get = client_Get (fakeClient None), cache_List = client_List (fakeClient None)\<rparr>
     ''cfg'' \<lparr>Scheme = None, Mapper = []\<rparr> = Inl (Error ''no cache'') \<and>
   (\<forall>tc. NewRuntimeClient (\<lambda>cfg opts. Inl (Error ''no host''))
     \<lparr>cache_Get = client_Get (fakeClient None), cache_List = client_List (fakeClient None)\<rparr>
     ''cfg'' \<lparr>Scheme = None, Mapper = []\<rparr> \<noteq> Inr tc) \<and>
   (\<forall>tc. WrapRuntimeClient (\<lambda>ch cfg opts. Inl (Error ''no cache''))
     \<lparr>cache_Get = client_Get (fakeClient None), cache_List = client_List (fakeClient None)\<rparr>
     ''cfg'' \<lparr>Scheme = None, Mapper = []\<rparr> \<noteq> Inr tc)"
  using constructor_error_returned
    [of "\<lambda>cfg opts. Inl (Error ''no host'')" "''cfg''" "\<lparr>Scheme = None, Mapper = []\<rparr>"
        "Error ''no host''" "\<lambda>ch cfg opts. Inl (Error ''no cache'')"
        "\<lparr>cache_Get = client_Get (fakeClient None), cache_List = client_List (fakeClient None)\<rparr>"
        "Error ''no cache''"]
  by simp

section \<open>Properties of AddTraceAnnotation\<close>

lemma stampLoop_calls:
  "snd (stampLoop key s objs h) =
     concat (map (\<lambda>u. [GetAnnotationsCalled u, SetAnnotationsCalled u]) objs)"
  by (induction objs arbitrary: h) (simp_all add: split_beta Let_def)

lemma stampLoop_no_encode: "EncodeCalled sp \<notin> set (snd (stampLoop key s objs h))"
  by (auto simp add: stampLoop_calls)

text \<open>
  C5. When \<^verbatim>\<open>GenerateEmbeddableSpanContext\<close> fails, \<open>AddTraceAnnotation\<close>
  returns that error, leaves the heap, and so every object, as it was, and has
  made one call, to the encoder. It returns an error exactly when the encoder
  does. Whatever the encoder returns, the first call is the call to the encoder
  and no later call is one: the context is encoded once, before any object is
  read or written.
\<close>

theorem AddTraceAnnotation_encode_error:
  "(GenerateEmbeddableSpanContext span = Inl err \<longrightarrow>
      AddTraceAnnotation TraceAnnotationKey GenerateEmbeddableSpanContext objs span h =
        (Some err, h, [EncodeCalled span])) \<and>
   (fst (AddTraceAnnotation TraceAnnotationKey GenerateEmbeddableSpanContext objs span h) \<noteq> None)
     = isl (GenerateEmbeddableSpanContext span) \<and>
   snd (snd (AddTraceAnnotation TraceAnnotationKey GenerateEmbeddableSpanContext objs span h)) =
     EncodeCalled span #
     tl (snd (snd (AddTraceAnnotation TraceAnnotationKey GenerateEmbeddableSpanContext objs span h))) \<and>
   (\<forall>sp. EncodeCalled sp \<notin>
      set (tl (snd (snd
        (AddTraceAnnotation TraceAnnotationKey GenerateEmbeddableSpanContext objs span h)))))"
  by (cases "GenerateEmbeddableSpanContext span")
     (simp_all add: AddTraceAnnotation_def split_beta Let_def stampLoop_no_encode)

theorem AddTraceAnnotation_encode_error_witness:
  "(\<lambda>sp. Inl (Error ''no tracer'')) rootSpan = (Inl (Error ''no tracer'') :: error + string) \<and>
   AddTraceAnnotation ''trace'' (\<lambda>sp. Inl (Error ''no tracer''))
     [\<lparr>Object = Some 0\<rparr>, \<lparr>Object = None\<rparr>] rootSpan oneObjectHeap =
       (Some (Error ''no tracer''), oneObjectHeap, [EncodeCalled rootSpan]) \<and>
   snd (snd (AddTraceAnnotation ''trace'' (\<lambda>sp. Inr ''abc'')
     [\<lparr>Object = Some 0\<rparr>, \<lparr>Object = None\<rparr>] rootSpan oneObjectHeap)) =
       [EncodeCalled rootSpan,
        GetAnnotationsCalled \<lparr>Object = Some 0\<rparr>, SetAnnotationsCalled \<lparr>Object = Some 0\<rparr>,
        GetAnnotationsCalled \<lparr>Object = None\<rparr>, SetAnnotationsCalled \<lparr>Object = None\<rparr>]"
  using AddTraceAnnotation_encode_error
    [of "\<lambda>sp. Inl (Error ''no tracer'')" rootSpan "Error ''no tracer''" "''trace''"
        "[\<lparr>Object = Some 0\<rparr>, \<lparr>Object = None\<rparr>]" oneObjectHeap]
  by (simp add: AddTraceAnnotation_def split_beta Let_def)

text \<open>
  What the loop does to the heap. A map that an element of the slice points to
  ends as one run of the loop body leaves it; every other map is left alone.
\<close>

lemma SetAnnotations_NextAddr: "NextAddr h \<le> NextAddr (snd (SetAnnotations u a h))"
  by (simp add: SetAnnotations_def Let_def split: option.splits metadata.splits)

lemma stampObject_NextAddr: "NextAddr h \<le> NextAddr (snd (stampObject key s u h))"
  by (simp add: stampObject_def Let_def SetAnnotations_NextAddr)

lemma stampObject_other:
  "Object u \<noteq> Some q \<Longrightarrow> q < NextAddr h \<Longrightarrow> Cells (snd (stampObject key s u h)) q = Cells h q"
  by (auto simp add: stampObject_def SetAnnotations_def Let_def
      split: option.splits metadata.splits)

lemma stampObject_cong:
  "Cells h1 q = Cells h2 q \<Longrightarrow>
     Cells (snd (stampObject key s \<lparr>Object = Some q\<rparr> h1)) q =
     Cells (snd (stampObject key s \<lparr>Object = Some q\<rparr> h2)) q"
  by (simp add: stampObject_def SetAnnotations_def GetAnnotations_def Let_def
      split: option.splits metadata.splits annotations.splits)

lemma stampObject_twice:
  "Cells (snd (stampObject key s \<lparr>Object = Some q\<rparr>
                 (snd (stampObject key s \<lparr>Object = Some q\<rparr> h)))) q =
   Cells (snd (stampObject key s \<lparr>Object = Some q\<rparr> h)) q"
  by (simp add: stampObject_def SetAnnotations_def GetAnnotations_def Let_def
      split: option.splits metadata.splits annotations.splits)

lemma stampLoop_Cells:
  assumes "\<forall>u\<in>set objs. \<forall>p. Object u = Some p \<longrightarrow> p < NextAddr h" and "q < NextAddr h"
  shows "Cells (fst (stampLoop key s objs h)) q =
           (if Some q \<in> Object ` set objs
            then Cells (snd (stampObject key s \<lparr>Object = Some q\<rparr> h)) q
            else Cells h q)"
  using assms
proof (induction objs arbitrary: h)
  case Nil
  then show ?case by simp
next
  case (Cons u objs)
  define h' where "h' = snd (stampObject key s u h)"
  have mono: "NextAddr h \<le> NextAddr h'"
    unfolding h'_def by (rule stampObject_NextAddr)
  have IH: "Cells (fst (stampLoop key s objs h')) q =
           (if Some q \<in> Object ` set objs
            then Cells (snd (stampObject key s \<lparr>Object = Some q\<rparr> h')) q
            else Cells h' q)"
    using Cons.IH [of h'] Cons.prems mono by fastforce
  have unfold: "fst (stampLoop key s (u # objs) h) = fst (stampLoop key s objs h')"
    by (simp add: h'_def split_beta Let_def)
  show ?case
  proof (cases "Object u = Some q")
    case True
    then have u: "u = \<lparr>Object = Some q\<rparr>"
      by (cases u) simp
    have "Cells (snd (stampObject key s \<lparr>Object = Some q\<rparr> h')) q = Cells h' q"
      unfolding h'_def u by (rule stampObject_twice)
    then show ?thesis
      using IH True unfold by (simp add: h'_def u)
  next
    case False
    then have same: "Cells h' q = Cells h q"
      unfolding h'_def using Cons.prems(2) by (rule stampObject_other)
    have "Cells (snd (stampObject key s \<lparr>Object = Some q\<rparr> h')) q =
          Cells (snd (stampObject key s \<lparr>Object = Some q\<rparr> h)) q"
      using same by (rule stampObject_cong)
    then show ?thesis
      using IH False unfold same by (auto simp add: image_iff)
  qed
qed

text \<open>
  So an element whose \<^verbatim>\<open>Object\<close> map exists and whose \<^verbatim>\<open>metadata\<close> is absent or
  a map ends with the key and the annotations that \<^verbatim>\<open>GetAnnotations\<close> gave for
  it before: all of them when they were a map of strings, none when there were
  none or when they were not a map of strings.
\<close>

lemma AddTraceAnnotation_stamps_allocated:
  assumes "GenerateEmbeddableSpanContext span = Inr s"
    and "\<forall>u\<in>set objs. \<forall>p. Object u = Some p \<longrightarrow> p < NextAddr h"
    and "u \<in> set objs" and "Object u = Some q"
    and "Metadata (Cells h q) \<noteq> MetadataNotMap"
  shows "GetAnnotations u
           (fst (snd (AddTraceAnnotation key GenerateEmbeddableSpanContext objs span h))) =
         Some ((case GetAnnotations u h of None \<Rightarrow> Map.empty | Some m \<Rightarrow> m)(key \<mapsto> s))"
proof -
  have "q < NextAddr h"
    using assms(2,3,4) by blast
  moreover have "Some q \<in> Object ` set objs"
    using assms(3,4) by (metis imageI)
  ultimately have "Cells (fst (stampLoop key s objs h)) q =
      Cells (snd (stampObject key s \<lparr>Object = Some q\<rparr> h)) q"
    using stampLoop_Cells [OF assms(2), of q key s] by simp
  then show ?thesis
    using assms(1,4,5)
    by (simp add: AddTraceAnnotation_def GetAnnotations_def stampObject_def SetAnnotations_def
        split_beta Let_def split: metadata.splits annotations.splits)
qed

text \<open>An element whose \<^verbatim>\<open>metadata\<close> is not a map is left as it was, without the key.\<close>

lemma AddTraceAnnotation_metadata_not_map:
  assumes "GenerateEmbeddableSpanContext span = Inr s"
    and "\<forall>u\<in>set objs. \<forall>p. Object u = Some p \<longrightarrow> p < NextAddr h"
    and "u \<in> set objs" and "Object u = Some q"
    and "Metadata (Cells h q) = MetadataNotMap"
  shows "Cells (fst (snd (AddTraceAnnotation key GenerateEmbeddableSpanContext objs span h))) q =
         Cells h q"
proof -
  have "q < NextAddr h"
    using assms(2,3,4) by blast
  moreover have "Some q \<in> Object ` set objs"
    using assms(3,4) by (metis imageI)
  ultimately have "Cells (fst (stampLoop key s objs h)) q =
      Cells (snd (stampObject key s \<lparr>Object = Some q\<rparr> h)) q"
    using stampLoop_Cells [OF assms(2), of q key s] by simp
  then show ?thesis
    using assms(1,5)
    by (simp add: AddTraceAnnotation_def GetAnnotations_def stampObject_def SetAnnotations_def
        split_beta Let_def)
qed

text \<open>
  C4. The claim fails at an element whose \<^verbatim>\<open>Object\<close> map is \<^verbatim>\<open>nil\<close>. In the
  slice below the first element has a map with one annotation and the second is
  the zero value. The call succeeds; the first element keeps its annotation and
  gets the key; the second is as it was, without annotations, because the map
  that \<^verbatim>\<open>SetAnnotations\<close> made belongs to the loop variable: the key is in the
  new map at address 1, which no element of the slice holds.
\<close>

theorem AddTraceAnnotation_nil_Object_not_stamped:
  "fst (AddTraceAnnotation ''trace'' (\<lambda>sp. Inr ''abc'') [\<lparr>Object = Some 0\<rparr>, \<lparr>Object = None\<rparr>]
          rootSpan oneObjectHeap) = None \<and>
   GetAnnotations \<lparr>Object = Some 0\<rparr>
     (fst (snd (AddTraceAnnotation ''trace'' (\<lambda>sp. Inr ''abc'')
             [\<lparr>Object = Some 0\<rparr>, \<lparr>Object = None\<rparr>] rootSpan oneObjectHeap))) =
       Some [''owner'' \<mapsto> ''team-a'', ''trace'' \<mapsto> ''abc''] \<and>
   GetAnnotations \<lparr>Object = None\<rparr>
     (fst (snd (AddTraceAnnotation ''trace'' (\<lambda>sp. Inr ''abc'')
             [\<lparr>Object = Some 0\<rparr>, \<lparr>Object = None\<rparr>] rootSpan oneObjectHeap))) = None \<and>
   GetAnnotations \<lparr>Object = Some 1\<rparr>
     (fst (snd (AddTraceAnnotation ''trace'' (\<lambda>sp. Inr ''abc'')
             [\<lparr>Object = Some 0\<rparr>, \<lparr>Object = None\<rparr>] rootSpan oneObjectHeap))) =
       Some [''trace'' \<mapsto> ''abc'']"
  by (simp add: AddTraceAnnotation_def stampObject_def GetAnnotations_def SetAnnotations_def
      oneObjectHeap_def Let_def)

section \<open>Properties of the move command\<close>

text \<open>
  C9. With an empty \<^verbatim>\<open>--to-kubeconfig\<close>, \<open>runMove\<close> returns the
  missing-destination error and has called nothing, so no client was
  constructed. With a destination it constructs the client; if that fails it
  returns the constructor's error, and otherwise it calls \<open>Move\<close> with the three
  options and returns what \<open>Move\<close> returns, success or error.
\<close>

theorem runMove_destination:
  "runMove (mo\<lparr>toKubeconfig := []\<rparr>) cfgFile client_New =
     (Some (Error ''please specify a target cluster using the --to-kubeconfig flag''), []) \<and>
   (toKubeconfig mo \<noteq> [] \<longrightarrow>
      (case client_New cfgFile of
         Inl err \<Rightarrow> runMove mo cfgFile client_New = (Some err, [NewCalled cfgFile])
       | Inr c \<Rightarrow>
           runMove mo cfgFile client_New =
             (Move c \<lparr>Move_FromKubeconfig = fromKubeconfig mo,
                      Move_ToKubeconfig = toKubeconfig mo,
                      Move_Namespace = namespace mo\<rparr>,
              [NewCalled cfgFile,
               MoveCalled \<lparr>Move_FromKubeconfig = fromKubeconfig mo,
                           Move_ToKubeconfig = toKubeconfig mo,
                           Move_Namespace = namespace mo\<rparr>])))"
  by (simp add: runMove_def Let_def split: sum.splits option.splits)

theorem runMove_destination_witness:
  "toKubeconfig target \<noteq> [] \<and>
   runMove (target\<lparr>toKubeconfig := []\<rparr>) ''cfg'' (\<lambda>f. Inr (fakeMover (Some (Error ''paused'')))) =
     (Some (Error ''please specify a target cluster using the --to-kubeconfig flag''), []) \<and>
   runMove target ''cfg'' (\<lambda>f. Inr (fakeMover (Some (Error ''paused'')))) =
     (Some (Error ''paused''),
      [NewCalled ''cfg'',
       MoveCalled \<lparr>Move_FromKubeconfig = [], Move_ToKubeconfig = ''target-kubeconfig.yaml'',
                   Move_Namespace = ''default''\<rparr>])"
  using runMove_destination [of target "''cfg''" "\<lambda>f. Inr (fakeMover (Some (Error ''paused'')))"]
  by (simp add: target_def fakeMover_def)

end
